theory Spec2Isabelle
  imports
    Main
    "HOL-Library.Word"
    "HOL-Library.Char_ord"
    "HOL-Library.List_Lexorder"
    "HOL-Library.Multiset"
begin

unbundle bit_operations_syntax

chapter \<open>RAG-GO: chunker, vector store, chat archive and ingestion\<close>

text \<open>
  A shallow embedding of the Go packages \<open>processor\<close> (\<open>ChunkText\<close>,
  \<open>splitIntoSentences\<close>), \<open>storage\<close> (\<open>VectorStore\<close>, \<open>ChatStore\<close>) and of the
  ingestion loop of the upload handlers of package \<open>api\<close>.

  Go strings are byte sequences and \<open>len\<close> counts bytes, so a Go string is a
  \<^typ>\<open>string\<close> (a list of 8-bit characters) and non-ASCII delimiters appear as their
  UTF-8 bytes. Go's \<open>int\<close> is modelled by \<^typ>\<open>int\<close> where the source receives it from
  a caller and by \<^typ>\<open>nat\<close> for lengths and indices, which are bounded by the size of
  memory and never overflow 64 bits.
\<close>

section \<open>Definitions\<close>

subsection \<open>float32 values\<close>

text \<open>
  A \<open>float32\<close> is its IEEE-754 binary32 bit pattern. Comparisons and the numeric
  conversions between \<open>uint32\<close> and \<open>float32\<close> are determined by the Go specification
  and are defined here on the bit pattern. The arithmetic of \<open>cosineSimilarity\<close> is
  not: Go allows an implementation to fuse \<open>x*y + z\<close> into one rounding, and the result
  of converting a float that \<open>uint32\<close> cannot represent is implementation-dependent. These
  operations are the fields of \<open>fpu\<close>, and every function that computes with floats
  takes an \<open>fpu\<close>.
\<close>

type_synonym byte = "8 word"
type_synonym uint32 = "32 word"
type_synonym float32 = "32 word"

record fpu =
  conv_unrepresentable :: "float32 \<Rightarrow> uint32"
    \<comment> \<open>\<open>uint32(v)\<close> when the truncated value of \<open>v\<close> is not a \<open>uint32\<close>\<close>
  mul_add :: "float32 \<Rightarrow> float32 \<Rightarrow> float32 \<Rightarrow> float32"
    \<comment> \<open>\<open>mul_add acc x y\<close> is \<open>acc + x*y\<close>, fused or not\<close>
  fmul :: "float32 \<Rightarrow> float32 \<Rightarrow> float32"
  fdiv :: "float32 \<Rightarrow> float32 \<Rightarrow> float32"
  sqrt_via_float64 :: "float32 \<Rightarrow> float32"
    \<comment> \<open>\<open>float32(math.Sqrt(float64(x)))\<close>\<close>

definition f32_exponent :: "float32 \<Rightarrow> nat" where
  "f32_exponent v = unat (drop_bit 23 v AND 0xFF)"

definition f32_mantissa :: "float32 \<Rightarrow> nat" where
  "f32_mantissa v = unat (v AND 0x7FFFFF)"

definition f32_is_nan :: "float32 \<Rightarrow> bool" where
  "f32_is_nan v = (f32_exponent v = 255 \<and> f32_mantissa v \<noteq> 0)"

text \<open>
  An integer that orders the bit patterns as the floats they denote (both zeros map to
  0); NaN is excluded by the comparisons below.
\<close>

definition f32_key :: "float32 \<Rightarrow> int" where
  "f32_key v = (if bit v 31 then - int (unat (v AND 0x7FFFFFFF)) else int (unat v))"

definition f32_gt :: "float32 \<Rightarrow> float32 \<Rightarrow> bool" where
  "f32_gt a b = (\<not> f32_is_nan a \<and> \<not> f32_is_nan b \<and> f32_key b < f32_key a)"

definition f32_ge :: "float32 \<Rightarrow> float32 \<Rightarrow> bool" where
  "f32_ge a b = (\<not> f32_is_nan a \<and> \<not> f32_is_nan b \<and> f32_key b \<le> f32_key a)"

definition f32_eq_zero :: "float32 \<Rightarrow> bool" where
  "f32_eq_zero v = (v AND 0x7FFFFFFF = 0)"

text \<open>
  \<open>uint32(v)\<close> for a \<open>float32\<close> \<open>v\<close>: the fraction is discarded. A value of magnitude
  below 1 (biased exponent below 127) gives 0; a non-negative value below \<open>2^32\<close> (biased
  exponent at most 158) gives its integer part; anything else is not representable.
\<close>

definition f32_to_u32 :: "fpu \<Rightarrow> float32 \<Rightarrow> uint32" where
  "f32_to_u32 fp v =
     (let e = f32_exponent v; m = 2 ^ 23 + f32_mantissa v in
      if e < 127 then 0
      else if \<not> bit v 31 \<and> e \<le> 158 then
        of_nat (if 150 \<le> e then m * 2 ^ (e - 150) else m div 2 ^ (150 - e))
      else conv_unrepresentable fp v)"

fun bit_length :: "nat \<Rightarrow> nat" where
  "bit_length n = (if n = 0 then 0 else Suc (bit_length (n div 2)))"

definition round_half_even :: "nat \<Rightarrow> nat \<Rightarrow> nat" where
  "round_half_even n s =
     (let q = n div 2 ^ s; r = n mod 2 ^ s in
      if 2 * r > 2 ^ s \<or> (2 * r = 2 ^ s \<and> odd q) then q + 1 else q)"

text \<open>
  \<open>float32(u)\<close> for a \<open>uint32\<close> \<open>u\<close>: the nearest float, ties to even. With \<open>e\<close> the
  position of the leading bit the significand has 24 bits; a carry out of the rounding
  moves into the exponent field by the addition.
\<close>

definition u32_to_f32 :: "uint32 \<Rightarrow> float32" where
  "u32_to_f32 u =
     (let n = unat u in
      if n = 0 then 0
      else
        let e = bit_length n - 1;
            m = (if e \<le> 23 then n * 2 ^ (23 - e) else round_half_even n (e - 23))
        in of_nat ((e + 127) * 2 ^ 23 + m - 2 ^ 23))"

subsection \<open>Slices\<close>

text \<open>Indexing a Go slice panics out of range: a read or a write returns \<open>None\<close> there.\<close>

definition index :: "'a list \<Rightarrow> nat \<Rightarrow> 'a option" where
  "index xs i = (if i < length xs then Some (xs ! i) else None)"

definition store :: "'a list \<Rightarrow> nat \<Rightarrow> 'a \<Rightarrow> 'a list option" where
  "store xs i x = (if i < length xs then Some (xs[i := x]) else None)"

subsection \<open>Documents\<close>

record Metadata =
  Source :: string
  Title :: string
  Tags :: "string list"
  Custom :: "string \<rightharpoonup> string"
  ChunkID :: int
  ChunkNum :: int

record Document =
  ID :: string
  Content :: string
  Metadata :: Metadata

subsection \<open>The vector store\<close>

text \<open>
  \<open>VectorStore\<close> holds a Badger database and a directory of vector files. Badger is an
  ordered key-value store: its iterator visits keys in bytewise lexicographic order, so
  the database is a list of key-value pairs kept sorted by key. A value is the JSON
  encoding of a \<open>Document\<close>, written only by \<open>AddDocument\<close>; the model keeps the
  document itself, which is what \<open>json.Unmarshal\<close> gives back when the strings are valid
  UTF-8, and so has no branch for \<open>json.Marshal\<close> or \<open>json.Unmarshal\<close> failing. The
  vector directory maps a file name to the bytes of the file (ids are file names: the
  handlers generate them as UUIDs).

  Failures of the storage layer are inputs: \<open>vs_env\<close> says which calls of the
  operation at hand return an error.
\<close>

record VectorStore =
  db :: "(string \<times> Document) list"
  vectors :: "string \<rightharpoonup> byte list"

record vs_env =
  update_fails :: bool
    \<comment> \<open>\<open>db.Update\<close> returns an error\<close>
  iterate_fails :: bool
    \<comment> \<open>the \<open>db.View\<close> that iterates over the keys returns an error\<close>
  get_fails :: "string \<Rightarrow> bool"
    \<comment> \<open>\<open>txn.Get\<close> for this id fails with an error other than \<open>ErrKeyNotFound\<close>\<close>
  read_fails :: "string \<Rightarrow> bool"
    \<comment> \<open>\<open>os.ReadFile\<close> of this id's vector file fails although the file exists\<close>
  write_fails :: bool
    \<comment> \<open>\<open>os.WriteFile\<close> returns an error\<close>
  remove_fails :: bool
    \<comment> \<open>\<open>os.Remove\<close> fails with an error other than "does not exist"\<close>

datatype vs_error =
    ErrStoreDoc
  | ErrStoreVector
  | ErrReadVector
  | ErrDocNotFound
  | ErrGetDoc
  | ErrListDocs
  | ErrDeleteDoc
  | ErrDeleteVector
  | PanicIndexOutOfRange

definition doc_key :: "string \<Rightarrow> string" where
  "doc_key i = ''doc:'' @ i"

definition vector_file :: "string \<Rightarrow> string" where
  "vector_file i = i @ ''.vec''"

text \<open>\<open>txn.Set\<close>: insert at the key's place in the order, replacing an equal key.\<close>

fun db_set :: "string \<Rightarrow> 'v \<Rightarrow> (string \<times> 'v) list \<Rightarrow> (string \<times> 'v) list" where
  "db_set k v [] = [(k, v)]"
| "db_set k v ((k', v') # kvs) =
     (if k = k' then (k, v) # kvs
      else if k < k' then (k, v) # (k', v') # kvs
      else (k', v') # db_set k v kvs)"

text \<open>\<open>txn.Delete\<close>: a key that is not there is not an error in Badger.\<close>

definition db_delete :: "string \<Rightarrow> (string \<times> 'v) list \<Rightarrow> (string \<times> 'v) list" where
  "db_delete k kvs = filter (\<lambda>kv. fst kv \<noteq> k) kvs"

definition has_prefix :: "string \<Rightarrow> string \<Rightarrow> bool" where
  "has_prefix p k = (take (length p) k = p)"

text \<open>
  \<open>for it.Seek(prefix); it.ValidForPrefix(prefix); it.Next()\<close>: start at the first key
  not below the prefix, stop at the first key that does not have it.
\<close>

definition iterate_prefix :: "string \<Rightarrow> (string \<times> 'v) list \<Rightarrow> (string \<times> 'v) list" where
  "iterate_prefix p kvs =
     takeWhile (\<lambda>kv. has_prefix p (fst kv)) (dropWhile (\<lambda>kv. fst kv < p) kvs)"

definition list_doc_ids :: "VectorStore \<Rightarrow> string list" where
  "list_doc_ids vs = map (\<lambda>kv. drop (length ''doc:'') (fst kv)) (iterate_prefix ''doc:'' (db vs))"

text \<open>The four bytes written for one component, least significant first.\<close>

fun encode_loop :: "fpu \<Rightarrow> float32 list \<Rightarrow> nat \<Rightarrow> byte list \<Rightarrow> byte list option" where
  "encode_loop fp [] i vectorData = Some vectorData"
| "encode_loop fp (v # vs) i vectorData =
     (let byte0 = ucast (drop_bit 0 (f32_to_u32 fp v)) :: byte;
          byte1 = ucast (drop_bit 8 (f32_to_u32 fp v)) :: byte;
          byte2 = ucast (drop_bit 16 (f32_to_u32 fp v)) :: byte;
          byte3 = ucast (drop_bit 24 (f32_to_u32 fp v)) :: byte
      in case store vectorData (i * 4 + 0) byte0 of None \<Rightarrow> None | Some d0 \<Rightarrow>
         (case store d0 (i * 4 + 1) byte1 of None \<Rightarrow> None | Some d1 \<Rightarrow>
         (case store d1 (i * 4 + 2) byte2 of None \<Rightarrow> None | Some d2 \<Rightarrow>
         (case store d2 (i * 4 + 3) byte3 of None \<Rightarrow> None | Some d3 \<Rightarrow>
            encode_loop fp vs (i + 1) d3))))"

definition encode_vector :: "fpu \<Rightarrow> float32 list \<Rightarrow> byte list option" where
  "encode_vector fp vector = encode_loop fp vector 0 (replicate (length vector * 4) 0)"

text \<open>
  \<open>AddDocument\<close> returns the new store and the error (\<open>None\<close> is Go's \<open>nil\<close>). The
  document is committed before the vector file is written, and nothing compares the
  length of the vector with anything. A write that fails is taken to leave the file as it
  was.
\<close>

definition AddDocument ::
  "fpu \<Rightarrow> vs_env \<Rightarrow> VectorStore \<Rightarrow> Document \<Rightarrow> float32 list \<Rightarrow> VectorStore \<times> vs_error option" where
  "AddDocument fp env vs doc vector =
     (if update_fails env then (vs, Some ErrStoreDoc)
      else
        let vs1 = vs\<lparr>db := db_set (doc_key (ID doc)) doc (db vs)\<rparr> in
        case encode_vector fp vector of
          None \<Rightarrow> (vs1, Some PanicIndexOutOfRange)
        | Some vectorData \<Rightarrow>
            if write_fails env then (vs1, Some ErrStoreVector)
            else (vs1\<lparr>vectors := (vectors vs1)(vector_file (ID doc) \<mapsto> vectorData)\<rparr>, None))"

definition GetDocument :: "vs_env \<Rightarrow> VectorStore \<Rightarrow> string \<Rightarrow> vs_error + Document" where
  "GetDocument env vs i =
     (if get_fails env i then Inl ErrGetDoc
      else case map_of (db vs) (doc_key i) of
        None \<Rightarrow> Inl ErrDocNotFound
      | Some doc \<Rightarrow> Inr doc)"

fun decode_loop :: "byte list \<Rightarrow> nat \<Rightarrow> nat \<Rightarrow> float32 list option" where
  "decode_loop vectorData i 0 = Some []"
| "decode_loop vectorData i (Suc n) =
     (case (index vectorData (i * 4 + 0), index vectorData (i * 4 + 1),
            index vectorData (i * 4 + 2), index vectorData (i * 4 + 3)) of
        (Some b0, Some b1, Some b2, Some b3) \<Rightarrow>
          (let byte0 = ucast b0 :: uint32; byte1 = ucast b1 :: uint32;
               byte2 = ucast b2 :: uint32; byte3 = ucast b3 :: uint32;
               bits = byte0 OR push_bit 8 byte1 OR push_bit 16 byte2 OR push_bit 24 byte3
           in map_option (\<lambda>rest. u32_to_f32 bits # rest) (decode_loop vectorData (i + 1) n))
      | _ \<Rightarrow> None)"

definition GetVector :: "vs_env \<Rightarrow> VectorStore \<Rightarrow> string \<Rightarrow> vs_error + float32 list" where
  "GetVector env vs i =
     (case vectors vs (vector_file i) of
        None \<Rightarrow> Inl ErrReadVector
      | Some vectorData \<Rightarrow>
          if read_fails env i then Inl ErrReadVector
          else (case decode_loop vectorData 0 (length vectorData div 4) of
                  None \<Rightarrow> Inl PanicIndexOutOfRange
                | Some vector \<Rightarrow> Inr vector))"

text \<open>
  \<open>cosineSimilarity\<close>: the loop runs \<open>i\<close> from 0 to \<open>len(a)\<close> and reads \<open>a[i]\<close> and
  \<open>b[i]\<close>; \<open>None\<close> is the panic of a read out of range.
\<close>

fun cosine_loop ::
  "fpu \<Rightarrow> float32 list \<Rightarrow> float32 list \<Rightarrow> nat \<Rightarrow> nat \<Rightarrow> float32 \<times> float32 \<times> float32 \<Rightarrow>
   (float32 \<times> float32 \<times> float32) option" where
  "cosine_loop fp a b i 0 acc = Some acc"
| "cosine_loop fp a b i (Suc n) (dotProduct, normA, normB) =
     (case (index a i, index b i) of
        (Some x, Some y) \<Rightarrow>
          cosine_loop fp a b (i + 1) n
            (mul_add fp dotProduct x y, mul_add fp normA x x, mul_add fp normB y y)
      | _ \<Rightarrow> None)"

definition cosineSimilarity :: "fpu \<Rightarrow> float32 list \<Rightarrow> float32 list \<Rightarrow> float32 option" where
  "cosineSimilarity fp a b =
     (if length a \<noteq> length b then Some 0
      else case cosine_loop fp a b 0 (length a) (0, 0, 0) of
        None \<Rightarrow> None
      | Some (dotProduct, normA, normB) \<Rightarrow>
          if f32_eq_zero normA \<or> f32_eq_zero normB then Some 0
          else Some (fdiv fp dotProduct (fmul fp (sqrt_via_float64 fp normA) (sqrt_via_float64 fp normB))))"

record docSimilarity =
  doc_id :: string
  similarity :: float32

text \<open>
  The first loop of the search: a document whose vector cannot be read is skipped.
\<close>

fun collect_similarities ::
  "fpu \<Rightarrow> vs_env \<Rightarrow> VectorStore \<Rightarrow> float32 list \<Rightarrow> string list \<Rightarrow> docSimilarity list option" where
  "collect_similarities fp env vs queryVector [] = Some []"
| "collect_similarities fp env vs queryVector (i # docIDs) =
     (case GetVector env vs i of
        Inl err \<Rightarrow>
          if err = PanicIndexOutOfRange then None
          else collect_similarities fp env vs queryVector docIDs
      | Inr vector \<Rightarrow>
          (case cosineSimilarity fp queryVector vector of
             None \<Rightarrow> None
           | Some sim \<Rightarrow>
               map_option (\<lambda>rest. \<lparr>doc_id = i, similarity = sim\<rparr> # rest)
                 (collect_similarities fp env vs queryVector docIDs)))"

text \<open>The last loop of the search: a document that cannot be fetched is skipped.\<close>

fun fetch_results :: "vs_env \<Rightarrow> VectorStore \<Rightarrow> docSimilarity list \<Rightarrow> Document list \<times> float32 list" where
  "fetch_results env vs [] = ([], [])"
| "fetch_results env vs (sim # sims) =
     (case GetDocument env vs (doc_id sim) of
        Inl err \<Rightarrow> fetch_results env vs sims
      | Inr doc \<Rightarrow>
          (doc # fst (fetch_results env vs sims), similarity sim # snd (fetch_results env vs sims)))"

text \<open>
  \<open>sort.Slice\<close> belongs to the Go library. It is a parameter of the search:
  \<open>sort_slice less xs\<close> is the slice after \<open>sort.Slice(xs, less)\<close>.
\<close>

type_synonym sort_slice = "(docSimilarity \<Rightarrow> docSimilarity \<Rightarrow> bool) \<Rightarrow> docSimilarity list \<Rightarrow> docSimilarity list"

definition SearchSimilarWithFilter ::
  "fpu \<Rightarrow> sort_slice \<Rightarrow> vs_env \<Rightarrow> VectorStore \<Rightarrow> float32 list \<Rightarrow> int \<Rightarrow> (Document \<Rightarrow> bool) option \<Rightarrow>
   vs_error + Document list \<times> float32 list" where
  "SearchSimilarWithFilter fp sort_slice env vs queryVector limit filter_fn =
     (if iterate_fails env then Inl ErrListDocs
      else case collect_similarities fp env vs queryVector (list_doc_ids vs) of
        None \<Rightarrow> Inl PanicIndexOutOfRange
      | Some similarities \<Rightarrow>
          let sorted_sims = sort_slice (\<lambda>x y. f32_gt (similarity x) (similarity y)) similarities;
              limited = (if limit > 0 \<and> int (length sorted_sims) > limit
                         then take (nat limit) sorted_sims else sorted_sims)
          in Inr (fetch_results env vs limited))"

definition SearchSimilar ::
  "fpu \<Rightarrow> sort_slice \<Rightarrow> vs_env \<Rightarrow> VectorStore \<Rightarrow> float32 list \<Rightarrow> int \<Rightarrow>
   vs_error + Document list \<times> float32 list" where
  "SearchSimilar fp sort_slice env vs queryVector limit =
     SearchSimilarWithFilter fp sort_slice env vs queryVector limit None"

definition DeleteDocument :: "vs_env \<Rightarrow> VectorStore \<Rightarrow> string \<Rightarrow> VectorStore \<times> vs_error option" where
  "DeleteDocument env vs i =
     (if update_fails env then (vs, Some ErrDeleteDoc)
      else
        let vs1 = vs\<lparr>db := db_delete (doc_key i) (db vs)\<rparr> in
        if remove_fails env then (vs1, Some ErrDeleteVector)
        else (vs1\<lparr>vectors := (vectors vs1)(vector_file i := None)\<rparr>, None))"

subsection \<open>The chunker\<close>

text \<open>
  \<open>strings.Split(s, sep)\<close> for a separator that is not empty (the only use the program
  makes of it): the pieces of \<open>s\<close> between the occurrences of \<open>sep\<close>, found from left to
  right without overlap. The result is never empty.
\<close>

function Split :: "string \<Rightarrow> string \<Rightarrow> string list" where
  "Split sep [] = [[]]"
| "Split sep (c # cs) =
     (if sep \<noteq> [] \<and> has_prefix sep (c # cs)
      then [] # Split sep (drop (length sep) (c # cs))
      else (case Split sep cs of
              [] \<Rightarrow> [[c]]
            | piece # pieces \<Rightarrow> (c # piece) # pieces))"
  by pat_completeness auto
termination
  by (relation "measure (\<lambda>(sep, s). length s)") auto

text \<open>\<open>strings.Join(elems, sep)\<close>.\<close>

fun Join :: "string list \<Rightarrow> string \<Rightarrow> string" where
  "Join [] sep = []"
| "Join [x] sep = x"
| "Join (x # xs) sep = x @ sep @ Join xs sep"

text \<open>
  One delimiter of \<open>splitIntoSentences\<close> applied to one sentence: the parts of the Split,
  the empty ones dropped, every part but the last with the delimiter put back.
\<close>

fun keep_parts :: "string \<Rightarrow> string list \<Rightarrow> string list" where
  "keep_parts delimiter [] = []"
| "keep_parts delimiter [part] = (if part = [] then [] else [part])"
| "keep_parts delimiter (part # parts) =
     (if part = [] then keep_parts delimiter parts
      else (part @ delimiter) # keep_parts delimiter parts)"

definition delimiters :: "string list" where
  "delimiters =
     [''.'', ''!'', ''?'',
      [CHR 0xEF, CHR 0xBC, CHR 0x9B],
      [CHR 0xE3, CHR 0x80, CHR 0x82],
      [CHR 0xEF, CHR 0xBC, CHR 0x81],
      [CHR 0xEF, CHR 0xBC, CHR 0x9F]]"

definition split_sentences_by :: "string list \<Rightarrow> string \<Rightarrow> string list" where
  "split_sentences_by sentences delimiter =
     concat (map (\<lambda>s. keep_parts delimiter (Split delimiter s)) sentences)"

definition splitIntoSentences :: "string \<Rightarrow> string list" where
  "splitIntoSentences text = foldl split_sentences_by [text] delimiters"

text \<open>
  The new \<open>currentChunk\<close> after a chunk is emitted: the last \<open>overlap\<close> words of the
  emitted chunk, a word being a piece between single spaces.
\<close>

definition overlap_tail :: "int \<Rightarrow> string \<Rightarrow> string" where
  "overlap_tail overlap currentChunk =
     (let words = Split '' '' currentChunk in
      if length words > 0 \<and> overlap > 0
      then Join (drop (length words - min (length words) (nat overlap)) words) '' ''
      else [])"

text \<open>The state of the loops is the pair of \<open>chunks\<close> and \<open>currentChunk\<close>.\<close>

definition add_sentence :: "int \<Rightarrow> int \<Rightarrow> string list \<times> string \<Rightarrow> string \<Rightarrow> string list \<times> string" where
  "add_sentence chunkSize overlap st sentence =
     (let chunks = fst st; currentChunk = snd st in
      if int (length currentChunk) + int (length sentence) + 1 \<le> chunkSize then
        (chunks, (if currentChunk \<noteq> [] then currentChunk @ '' '' else currentChunk) @ sentence)
      else
        let (chunks1, current1) =
              (if currentChunk \<noteq> [] then (chunks @ [currentChunk], overlap_tail overlap currentChunk)
               else (chunks, currentChunk))
        in if int (length sentence) > chunkSize then (chunks1 @ [sentence], [])
           else (chunks1, (if current1 \<noteq> [] then current1 @ '' '' else current1) @ sentence))"

definition add_paragraph :: "int \<Rightarrow> int \<Rightarrow> string list \<times> string \<Rightarrow> string \<Rightarrow> string list \<times> string" where
  "add_paragraph chunkSize overlap st paragraph =
     (let chunks = fst st; currentChunk = snd st in
      if int (length paragraph) > chunkSize then
        foldl (add_sentence chunkSize overlap) st (splitIntoSentences paragraph)
      else if int (length currentChunk) + int (length paragraph) + 2 \<le> chunkSize then
        (chunks, (if currentChunk \<noteq> [] then currentChunk @ ''\<newline>\<newline>'' else currentChunk) @ paragraph)
      else
        let (chunks1, current1) =
              (if currentChunk \<noteq> [] then (chunks @ [currentChunk], overlap_tail overlap currentChunk)
               else (chunks, currentChunk))
        in (chunks1, current1 @ paragraph))"

definition normal_size :: "int \<Rightarrow> int" where
  "normal_size chunkSize = (if chunkSize \<le> 0 then 1000 else chunkSize)"

definition normal_overlap :: "int \<Rightarrow> int \<Rightarrow> int" where
  "normal_overlap chunkSize overlap =
     (if overlap < 0 \<or> overlap \<ge> normal_size chunkSize then normal_size chunkSize div 5 else overlap)"

definition ChunkText :: "string \<Rightarrow> int \<Rightarrow> int \<Rightarrow> string list" where
  "ChunkText text chunkSize overlap =
     (let size = normal_size chunkSize;
          ov = normal_overlap chunkSize overlap;
          paragraphs = Split ''\<newline>\<newline>'' text;
          (chunks, currentChunk) = foldl (add_paragraph size ov) ([], []) paragraphs
      in if currentChunk \<noteq> [] then chunks @ [currentChunk] else chunks)"

subsection \<open>The chat archive\<close>

text \<open>
  \<open>ChatStore\<close> keeps one directory per character under \<open>chats/\<close>, one file
  \<open>chatID.json\<close> per transcript in it and the index \<open>_info.json\<close>. The model maps a
  character and a file name to the content of the file; character names and chat ids are
  taken as plain path components. A file written by the program is a transcript (an
  object with \<open>info\<close> and \<open>messages\<close>) or an index (an array of infos);
  \<open>json.Unmarshal\<close> of one into the type of the other fails. \<open>OtherContent\<close> is any
  content that \<open>json.Unmarshal\<close> rejects for both types. A \<open>time.Time\<close> is an
  instant, which the JSON encoding keeps.
\<close>

record ChatMessage =
  Role :: string
  msg_Content :: string
  Time :: string

record ChatHistory =
  Messages :: "ChatMessage list"
  chat_Title :: string
  chat_ID :: string

type_synonym instant = int

record ChatInfo =
  info_ID :: string
  info_Title :: string
  Character :: string
  CreatedAt :: instant
  UpdatedAt :: instant
  MessageCount :: int

datatype chat_file =
    TranscriptFile ChatInfo "ChatMessage list"
  | IndexFile "ChatInfo list"
  | OtherContent

record ChatStore =
  character_dirs :: "string set"
  chat_files :: "string \<times> string \<rightharpoonup> chat_file"

record chat_env =
  mkdir_fails :: bool
    \<comment> \<open>\<open>os.MkdirAll\<close> returns an error\<close>
  stat_fails :: "string \<Rightarrow> bool"
    \<comment> \<open>\<open>os.Stat\<close> of this file name returns an error although the file exists\<close>
  read_file_fails :: "string \<Rightarrow> bool"
    \<comment> \<open>\<open>os.ReadFile\<close> of this file name returns an error although the file exists\<close>
  write_file_fails :: "string \<Rightarrow> bool"
    \<comment> \<open>\<open>os.WriteFile\<close> of this file name returns an error\<close>

datatype chat_error =
    ErrCreateCharacterDir
  | ErrSaveChat
  | ErrReadCharacterInfo
  | ErrWriteCharacterInfo
  | ErrParseCharacterInfo
  | ErrChatNotFound
  | ErrReadChat
  | ErrParseChat

definition chat_file_name :: "string \<Rightarrow> string" where
  "chat_file_name chatID = chatID @ ''.json''"

definition info_file_name :: string where
  "info_file_name = ''_info.json''"

text \<open>
  The loop of \<open>updateCharacterInfo\<close>: the first entry with the id is replaced; the flag
  is \<open>updated\<close>.
\<close>

fun replace_info :: "ChatInfo \<Rightarrow> ChatInfo list \<Rightarrow> ChatInfo list \<times> bool" where
  "replace_info chatInfo [] = ([], False)"
| "replace_info chatInfo (info # chats) =
     (if info_ID info = info_ID chatInfo then (chatInfo # chats, True)
      else (info # fst (replace_info chatInfo chats), snd (replace_info chatInfo chats)))"

definition updateCharacterInfo ::
  "chat_env \<Rightarrow> ChatStore \<Rightarrow> string \<Rightarrow> ChatInfo \<Rightarrow> ChatStore \<times> chat_error option" where
  "updateCharacterInfo env cs character chatInfo =
     (case (case chat_files cs (character, info_file_name) of
              None \<Rightarrow> Inr []
            | Some content \<Rightarrow>
                if stat_fails env info_file_name then Inr []
                else if read_file_fails env info_file_name then Inl ErrReadCharacterInfo
                else (case content of IndexFile chats \<Rightarrow> Inr chats | _ \<Rightarrow> Inr [])) of
        Inl err \<Rightarrow> (cs, Some err)
      | Inr chats \<Rightarrow>
          let chats1 = (if snd (replace_info chatInfo chats) then fst (replace_info chatInfo chats)
                        else chats @ [chatInfo])
          in if write_file_fails env info_file_name then (cs, Some ErrWriteCharacterInfo)
             else (cs\<lparr>chat_files := (chat_files cs)((character, info_file_name) \<mapsto> IndexFile chats1)\<rparr>,
                   None))"

text \<open>
  \<open>SaveChat\<close> reads the clock twice, for \<open>CreatedAt\<close> and for \<open>UpdatedAt\<close>; the two
  readings are the arguments \<open>now1\<close> and \<open>now2\<close>.
\<close>

definition SaveChat ::
  "chat_env \<Rightarrow> instant \<Rightarrow> instant \<Rightarrow> ChatStore \<Rightarrow> string \<Rightarrow> ChatHistory \<Rightarrow>
   ChatStore \<times> chat_error option" where
  "SaveChat env now1 now2 cs character chat =
     (if mkdir_fails env then (cs, Some ErrCreateCharacterDir)
      else
        let cs1 = cs\<lparr>character_dirs := insert character (character_dirs cs)\<rparr>;
            chatInfo = \<lparr>info_ID = chat_ID chat, info_Title = chat_Title chat, Character = character,
                        CreatedAt = now1, UpdatedAt = now2,
                        MessageCount = int (length (Messages chat))\<rparr>;
            chatPath = chat_file_name (chat_ID chat);
            chatInfo1 =
              (case chat_files cs1 (character, chatPath) of
                 None \<Rightarrow> chatInfo
               | Some content \<Rightarrow>
                   if stat_fails env chatPath \<or> read_file_fails env chatPath then chatInfo
                   else (case content of
                           TranscriptFile existing msgs \<Rightarrow> chatInfo\<lparr>CreatedAt := CreatedAt existing\<rparr>
                         | _ \<Rightarrow> chatInfo))
        in if write_file_fails env chatPath then (cs1, Some ErrSaveChat)
           else updateCharacterInfo env
                  (cs1\<lparr>chat_files := (chat_files cs1)((character, chatPath) \<mapsto>
                          TranscriptFile chatInfo1 (Messages chat))\<rparr>)
                  character chatInfo1)"

definition GetChat :: "chat_env \<Rightarrow> ChatStore \<Rightarrow> string \<Rightarrow> string \<Rightarrow> chat_error + ChatHistory" where
  "GetChat env cs character chatID =
     (case chat_files cs (character, chat_file_name chatID) of
        None \<Rightarrow> Inl ErrChatNotFound
      | Some content \<Rightarrow>
          if read_file_fails env (chat_file_name chatID) then Inl ErrReadChat
          else (case content of
                  TranscriptFile info msgs \<Rightarrow>
                    Inr \<lparr>Messages = msgs, chat_Title = info_Title info, chat_ID = info_ID info\<rparr>
                | _ \<Rightarrow> Inl ErrParseChat))"


subsection \<open>The upload handlers\<close>

text \<open>
  The handlers of \<open>/api/databank/upload\<close> and \<open>/api/character/:character/chat/upload\<close>
  after the JSON body is bound (a body that does not parse is answered with status 400
  before anything else happens). What the handler obtains from outside is an input:
  the UUIDs, the embedding of each fragment (the model is random and may fail), the
  storage faults during each \<open>AddDocument\<close> and the formatted clock readings.
\<close>

record ingest_env =
  new_uuid :: "nat \<Rightarrow> string"
    \<comment> \<open>\<open>uuid.New().String()\<close> for fragment \<open>i\<close>\<close>
  GetEmbedding :: "nat \<Rightarrow> string \<Rightarrow> float32 list option"
    \<comment> \<open>the embedding of fragment \<open>i\<close>; \<open>None\<close> when the call returns an error\<close>
  add_env :: "nat \<Rightarrow> vs_env"
    \<comment> \<open>the storage faults during \<open>AddDocument\<close> of fragment \<open>i\<close>\<close>
  now_rfc3339 :: "nat \<Rightarrow> string"
    \<comment> \<open>\<open>time.Now().Format(time.RFC3339)\<close> at fragment \<open>i\<close>\<close>

datatype upload_failure =
    ErrSaveChatHistory chat_error
  | ErrProcessChatHistory
  | ErrEmbedding
  | ErrStoreDocument vs_error

text \<open>
  A response is its status and what its JSON body carries: an error body has the one key
  \<open>error\<close> with a message, the body of a success has \<open>document_ids\<close> and \<open>chunks\<close>.
\<close>

datatype response =
    StatusBadRequest
  | StatusInternalServerError upload_failure
  | StatusOK "string list" nat

fun document_ids_of :: "response \<Rightarrow> string list option" where
  "document_ids_of (StatusOK docIDs chunks) = Some docIDs"
| "document_ids_of StatusBadRequest = None"
| "document_ids_of (StatusInternalServerError failure) = None"

text \<open>
  The loop over the fragments, the same in both handlers but for the document it builds
  (\<open>mk i chunk docID\<close>). The id joins \<open>docIDs\<close> before the fragment is embedded; a
  failure returns at once.
\<close>

fun store_chunks ::
  "fpu \<Rightarrow> ingest_env \<Rightarrow> (nat \<Rightarrow> string \<Rightarrow> string \<Rightarrow> Document) \<Rightarrow> VectorStore \<Rightarrow> nat \<Rightarrow>
   string list \<Rightarrow> string list \<Rightarrow> VectorStore \<times> (upload_failure + string list)" where
  "store_chunks fp ie mk vs i [] docIDs = (vs, Inr docIDs)"
| "store_chunks fp ie mk vs i (chunk # rest) docIDs =
     (let docID = new_uuid ie i;
          docIDs1 = docIDs @ [docID];
          doc = mk i chunk docID
      in case GetEmbedding ie i chunk of
           None \<Rightarrow> (vs, Inl ErrEmbedding)
         | Some vector \<Rightarrow>
             (let added = AddDocument fp (add_env ie i) vs doc vector
              in case snd added of
                   Some err \<Rightarrow> (fst added, Inl (ErrStoreDocument err))
                 | None \<Rightarrow> store_chunks fp ie mk (fst added) (i + 1) rest docIDs1))"

definition upload_response :: "upload_failure + string list \<Rightarrow> nat \<Rightarrow> response" where
  "upload_response outcome chunks =
     (case outcome of
        Inl failure \<Rightarrow> StatusInternalServerError failure
      | Inr docIDs \<Rightarrow> StatusOK docIDs chunks)"

record databank_request =
  Name :: string
  req_Content :: string
  Type :: string

definition databank_document ::
  "ingest_env \<Rightarrow> databank_request \<Rightarrow> nat \<Rightarrow> nat \<Rightarrow> string \<Rightarrow> string \<Rightarrow> Document" where
  "databank_document ie req chunkNum i chunk docID =
     \<lparr>ID = docID, Content = chunk,
      Metadata = \<lparr>Source = Type req, Title = Name req, Tags = [''databank'', Type req],
                  Custom = [''upload_time'' \<mapsto> now_rfc3339 ie i],
                  ChunkID = int i, ChunkNum = int chunkNum\<rparr>\<rparr>"

definition handleDatabankUpload ::
  "fpu \<Rightarrow> ingest_env \<Rightarrow> VectorStore \<Rightarrow> databank_request \<Rightarrow> VectorStore \<times> response" where
  "handleDatabankUpload fp ie vs req =
     (if req_Content req = [] then (vs, StatusBadRequest)
      else
        let chunks = ChunkText (req_Content req) 1000 200;
            run = store_chunks fp ie (databank_document ie req (length chunks)) vs 0 chunks []
        in (fst run, upload_response (snd run) (length chunks)))"

text \<open>\<open>ProcessChatHistory\<close>: the transcript as one text, then chunked.\<close>

definition role_prefix :: "string \<Rightarrow> string" where
  "role_prefix role =
     (if role = ''user'' then [CHR 0xE7, CHR 0x94, CHR 0xA8, CHR 0xE6, CHR 0x88, CHR 0xB7] @ '': ''
      else if role = ''assistant'' then [CHR 0xE5, CHR 0x8A, CHR 0xA9, CHR 0xE6, CHR 0x89, CHR 0x8B] @ '': ''
      else if role = ''system'' then [CHR 0xE7, CHR 0xB3, CHR 0xBB, CHR 0xE7, CHR 0xBB, CHR 0x9F] @ '': ''
      else role @ '': '')"

definition render_message :: "ChatMessage \<Rightarrow> string" where
  "render_message msg =
     role_prefix (Role msg) @ (if Time msg \<noteq> [] then '' ['' @ Time msg @ '']'' else [])
       @ ''\<newline>'' @ msg_Content msg @ ''\<newline>\<newline>''"

definition ProcessChatHistory :: "ChatHistory \<Rightarrow> string list option" where
  "ProcessChatHistory chat =
     (if Messages chat = [] then None
      else Some (ChunkText
        ([CHR 0xE8, CHR 0x81, CHR 0x8A, CHR 0xE5, CHR 0xA4, CHR 0xA9,
          CHR 0xE6, CHR 0xA0, CHR 0x87, CHR 0xE9, CHR 0xA2, CHR 0x98] @ '': '' @ chat_Title chat
           @ ''\<newline>\<newline>'' @ concat (map render_message (Messages chat)))
        1000 200))"

fun decimal :: "nat \<Rightarrow> string" where
  "decimal n = (if n < 10 then [char_of (48 + n)] else decimal (n div 10) @ [char_of (48 + n mod 10)])"

definition CreateChatMetadata :: "string \<Rightarrow> ChatHistory \<Rightarrow> (string \<rightharpoonup> string)" where
  "CreateChatMetadata now chat =
     (let metadata = [''title'' \<mapsto> chat_Title chat, ''chat_id'' \<mapsto> chat_ID chat,
                      ''message_count'' \<mapsto> decimal (length (Messages chat)),
                      ''upload_time'' \<mapsto> now]
      in case Messages chat of
           [] \<Rightarrow> metadata
         | firstMsg # rest \<Rightarrow>
             (let lastMsg = last (Messages chat);
                  metadata1 = (if Time firstMsg \<noteq> [] then metadata(''start_time'' \<mapsto> Time firstMsg)
                               else metadata)
              in if Time lastMsg \<noteq> [] then metadata1(''end_time'' \<mapsto> Time lastMsg) else metadata1))"

record chat_upload_env =
  chat_uuid :: string
    \<comment> \<open>\<open>uuid.New().String()\<close> for a transcript without an id\<close>
  title_time :: string
    \<comment> \<open>the clock formatted for the default title\<close>
  save_env :: chat_env
  save_now1 :: instant
  save_now2 :: instant
  metadata_time :: string
    \<comment> \<open>the clock formatted for \<open>upload_time\<close>\<close>

definition character_chat_document ::
  "string \<Rightarrow> ChatHistory \<Rightarrow> (string \<rightharpoonup> string) \<Rightarrow> nat \<Rightarrow> nat \<Rightarrow> string \<Rightarrow> string \<Rightarrow> Document" where
  "character_chat_document character chat metadata chunkNum i chunk docID =
     \<lparr>ID = docID, Content = chunk,
      Metadata = \<lparr>Source = ''character_chat'', Title = chat_Title chat,
                  Tags = [''chat'', ''character'', character], Custom = metadata,
                  ChunkID = int i, ChunkNum = int chunkNum\<rparr>\<rparr>"

definition handleCharacterChatUpload ::
  "fpu \<Rightarrow> ingest_env \<Rightarrow> chat_upload_env \<Rightarrow> ChatStore \<times> VectorStore \<Rightarrow> string \<Rightarrow> ChatHistory \<Rightarrow>
   (ChatStore \<times> VectorStore) \<times> response" where
  "handleCharacterChatUpload fp ie ce st character chatHistory =
     (if character = [] then (st, StatusBadRequest)
      else if Messages chatHistory = [] then (st, StatusBadRequest)
      else
        let chat1 = (if chat_ID chatHistory = [] then chatHistory\<lparr>chat_ID := chat_uuid ce\<rparr>
                     else chatHistory);
            chat2 = (if chat_Title chat1 = []
                     then chat1\<lparr>chat_Title := character
                            @ [CHR 0xE7, CHR 0x9A, CHR 0x84, CHR 0xE8, CHR 0x81, CHR 0x8A,
                               CHR 0xE5, CHR 0xA4, CHR 0xA9, CHR 0xE8, CHR 0xAE, CHR 0xB0,
                               CHR 0xE5, CHR 0xBD, CHR 0x95] @ '' '' @ title_time ce\<rparr>
                     else chat1);
            saved = SaveChat (save_env ce) (save_now1 ce) (save_now2 ce) (fst st) character chat2
        in case snd saved of
             Some err \<Rightarrow> ((fst saved, snd st), StatusInternalServerError (ErrSaveChatHistory err))
           | None \<Rightarrow>
               (case ProcessChatHistory chat2 of
                  None \<Rightarrow> ((fst saved, snd st), StatusInternalServerError ErrProcessChatHistory)
                | Some chunks \<Rightarrow>
                    let metadata = (CreateChatMetadata (metadata_time ce) chat2)(''character'' \<mapsto> character);
                        run = store_chunks fp ie
                                (character_chat_document character chat2 metadata (length chunks))
                                (snd st) 0 chunks []
                    in ((fst saved, fst run), upload_response (snd run) (length chunks))))"

subsection \<open>Auxiliary notions for the statements\<close>

text \<open>The four little-endian bytes of a 32-bit pattern.\<close>

definition le_bytes :: "uint32 \<Rightarrow> byte list" where
  "le_bytes u = [ucast u, ucast (drop_bit 8 u), ucast (drop_bit 16 u), ucast (drop_bit 24 u)]"

text \<open>A fresh store (\<open>NewVectorStore\<close> on an empty directory) and a fault-free run.\<close>

definition vs_empty :: VectorStore where
  "vs_empty = \<lparr>db = [], vectors = Map.empty\<rparr>"

definition env_ok :: vs_env where
  "env_ok = \<lparr>update_fails = False, iterate_fails = False, get_fails = (\<lambda>i. False),
             read_fails = (\<lambda>i. False), write_fails = False, remove_fails = False\<rparr>"

text \<open>
  Every document sits under the key of its own id. \<open>AddDocument\<close> writes no other kind
  of entry.
\<close>

definition db_keyed :: "VectorStore \<Rightarrow> bool" where
  "db_keyed vs = list_all (\<lambda>kv. fst kv = doc_key (ID (snd kv))) (db vs)"



text \<open>
  Go's \<open>insertionSortLessFunc\<close>, which \<open>sort.Slice\<close> runs on a slice of at most 12
  elements: each element moves left while it is less than its left neighbour. The sorted
  part of the slice is kept reversed, the neighbour first.
\<close>

fun insert_left :: "('a \<Rightarrow> 'a \<Rightarrow> bool) \<Rightarrow> 'a \<Rightarrow> 'a list \<Rightarrow> 'a list" where
  "insert_left lt x [] = [x]"
| "insert_left lt x (y # ys) = (if lt x y then y # insert_left lt x ys else x # y # ys)"

definition insertion_sort :: "('a \<Rightarrow> 'a \<Rightarrow> bool) \<Rightarrow> 'a list \<Rightarrow> 'a list" where
  "insertion_sort lt xs = rev (foldl (\<lambda>acc x. insert_left lt x acc) [] xs)"

text \<open>
  The value of \<open>cosineSimilarity\<close>, which never panics (\<open>cosineSimilarity_total\<close>
  below), and the candidates of a search: one entry for each listed id whose vector can
  be read.
\<close>

definition score :: "fpu \<Rightarrow> float32 list \<Rightarrow> float32 list \<Rightarrow> float32" where
  "score fp a b = (case cosineSimilarity fp a b of Some s \<Rightarrow> s | None \<Rightarrow> 0)"

definition candidates :: "fpu \<Rightarrow> vs_env \<Rightarrow> VectorStore \<Rightarrow> float32 list \<Rightarrow> string list \<Rightarrow> docSimilarity list" where
  "candidates fp env vs q ids =
     concat (map (\<lambda>i. case GetVector env vs i of
                         Inl err \<Rightarrow> []
                       | Inr v \<Rightarrow> [\<lparr>doc_id = i, similarity = score fp q v\<rparr>]) ids)"

text \<open>The cut to \<open>limit\<close> results; a limit that is not positive cuts nothing.\<close>

definition limited :: "int \<Rightarrow> 'a list \<Rightarrow> 'a list" where
  "limited limit xs = (if limit > 0 \<and> int (length xs) > limit then take (nat limit) xs else xs)"

text \<open>The filter that \<open>handleChatSearch\<close> passes: the document has the tag \<open>chat\<close>.\<close>

definition has_chat_tag :: "Document \<Rightarrow> bool" where
  "has_chat_tag doc = (''chat'' \<in> set (Tags (Metadata doc)))"

definition example_doc :: "string \<Rightarrow> string list \<Rightarrow> Document" where
  "example_doc i tags =
     \<lparr>ID = i, Content = ''text'',
      Metadata = \<lparr>Source = ''txt'', Title = ''T'', Tags = tags, Custom = Map.empty,
                  ChunkID = 0, ChunkNum = 1\<rparr>\<rparr>"

text \<open>The loops of the chunker have produced something: a chunk or a pending chunk.\<close>

definition nonempty_state :: "string list \<times> string \<Rightarrow> bool" where
  "nonempty_state st = (fst st \<noteq> [] \<or> snd st \<noteq> [])"


definition store_one_databank :: "fpu \<Rightarrow> VectorStore" where
  "store_one_databank fp =
     fst (AddDocument fp env_ok vs_empty (example_doc ''d1'' [''databank'', ''txt'']) [0x3F800000])"





text \<open>A fresh archive, a fault-free run and a transcript of one message.\<close>

definition chat_store_empty :: ChatStore where
  "chat_store_empty = \<lparr>character_dirs = {}, chat_files = Map.empty\<rparr>"

definition chat_env_ok :: chat_env where
  "chat_env_ok = \<lparr>mkdir_fails = False, stat_fails = (\<lambda>f. False), read_file_fails = (\<lambda>f. False),
                  write_file_fails = (\<lambda>f. False)\<rparr>"


text \<open>The store after fragment \<open>i\<close> failed: the document may be committed without its vector.\<close>

definition after_failed_fragment ::
  "fpu \<Rightarrow> ingest_env \<Rightarrow> (nat \<Rightarrow> string \<Rightarrow> string \<Rightarrow> Document) \<Rightarrow> VectorStore \<Rightarrow> nat \<Rightarrow> string \<Rightarrow> VectorStore" where
  "after_failed_fragment fp ie mk vs i chunk =
     (case GetEmbedding ie i chunk of
        None \<Rightarrow> vs
      | Some vector \<Rightarrow> fst (AddDocument fp (add_env ie i) vs (mk i chunk (new_uuid ie i)) vector))"

definition fragment_fails ::
  "fpu \<Rightarrow> ingest_env \<Rightarrow> (nat \<Rightarrow> string \<Rightarrow> string \<Rightarrow> Document) \<Rightarrow> VectorStore \<Rightarrow> nat \<Rightarrow> string \<Rightarrow> bool" where
  "fragment_fails fp ie mk vs i chunk =
     (case GetEmbedding ie i chunk of
        None \<Rightarrow> True
      | Some vector \<Rightarrow> snd (AddDocument fp (add_env ie i) vs (mk i chunk (new_uuid ie i)) vector) \<noteq> None)"

text \<open>
  A text of two paragraphs of 600 bytes, which \<open>ChunkText\<close> cuts in two fragments, and
  an embedding provider that fails on the second fragment.
\<close>

definition paragraph_a :: string where
  "paragraph_a = replicate 600 (CHR ''a'')"

definition paragraph_b :: string where
  "paragraph_b = replicate 600 (CHR ''b'')"

definition two_paragraphs :: string where
  "two_paragraphs = paragraph_a @ ''\<newline>\<newline>'' @ paragraph_b"

definition fails_at_second :: ingest_env where
  "fails_at_second =
     \<lparr>new_uuid = (\<lambda>i. replicate (Suc i) (CHR ''u'')),
      GetEmbedding = (\<lambda>i chunk. if i = 0 then Some [0x3F800000] else None),
      add_env = (\<lambda>i. env_ok),
      now_rfc3339 = (\<lambda>i. ''2024-01-01T00:00:00Z'')\<rparr>"

definition two_paragraph_request :: databank_request where
  "two_paragraph_request = \<lparr>Name = ''notes'', req_Content = two_paragraphs, Type = ''txt''\<rparr>"

section \<open>Properties\<close>

subsection \<open>The vector file: encoding and decoding\<close>

lemma le_bytes_join:
  "(ucast (ucast u :: byte) :: uint32) OR push_bit 8 (ucast (ucast (drop_bit 8 u) :: byte))
     OR push_bit 16 (ucast (ucast (drop_bit 16 u) :: byte))
     OR push_bit 24 (ucast (ucast (drop_bit 24 u) :: byte)) = u"
proof (rule bit_word_eqI)
  fix n assume "n < LENGTH(32)"
  then have n: "n < 32" by simp
  consider "n < 8" | "8 \<le> n" "n < 16" | "16 \<le> n" "n < 24" | "24 \<le> n" by linarith
  then show "bit ((ucast (ucast u :: byte) :: uint32) OR push_bit 8 (ucast (ucast (drop_bit 8 u) :: byte))
     OR push_bit 16 (ucast (ucast (drop_bit 16 u) :: byte))
     OR push_bit 24 (ucast (ucast (drop_bit 24 u) :: byte))) n = bit u n"
    using n by cases (auto simp add: bit_simps)
qed

lemma update4_Suc:
  "Suc (Suc (Suc k)) < length buf \<Longrightarrow>
   buf[k := a, Suc k := b, Suc (Suc k) := c, Suc (Suc (Suc k)) := d] =
     take k buf @ [a, b, c, d] @ drop (Suc (Suc (Suc (Suc k)))) buf"
proof (induction buf arbitrary: k)
  case Nil
  then show ?case by simp
next
  case (Cons x xs)
  show ?case
  proof (cases k)
    case 0
    with Cons.prems obtain y z w ws where "xs = y # z # w # ws"
      by (cases xs; simp; cases "tl xs"; simp; cases "tl (tl xs)"; simp)
    with 0 show ?thesis by simp
  next
    case (Suc j)
    with Cons.prems have "Suc (Suc (Suc j)) < length xs" by simp
    from Cons.IH[OF this] Suc show ?thesis by simp
  qed
qed

lemma update4:
  "k + 3 < length buf \<Longrightarrow>
   buf[k := a, k + 1 := b, k + 2 := c, k + 3 := d] = take k buf @ [a, b, c, d] @ drop (k + 4) buf"
  using update4_Suc[of k buf a b c d] by (simp add: eval_nat_numeral)

lemma encode_loop_eq:
  "(i + length vs) * 4 \<le> length buf \<Longrightarrow>
   encode_loop fp vs i buf =
     Some (take (i * 4) buf @ concat (map (\<lambda>v. le_bytes (f32_to_u32 fp v)) vs) @ drop ((i + length vs) * 4) buf)"
proof (induction vs arbitrary: i buf)
  case Nil
  then show ?case by simp
next
  case (Cons v vs)
  let ?u = "f32_to_u32 fp v"
  let ?b = "buf[i * 4 := ucast ?u, i * 4 + 1 := ucast (drop_bit 8 ?u),
                i * 4 + 2 := ucast (drop_bit 16 ?u), i * 4 + 3 := ucast (drop_bit 24 ?u)]"
  have len: "i * 4 + 3 < length buf" using Cons.prems by simp
  have step: "encode_loop fp (v # vs) i buf = encode_loop fp vs (i + 1) ?b"
    using len by (simp add: store_def Let_def)
  have b: "?b = take (i * 4) buf @ le_bytes ?u @ drop (i * 4 + 4) buf"
    using update4[OF len] by (simp add: le_bytes_def)
  have "(i + 1 + length vs) * 4 \<le> length ?b" using Cons.prems by simp
  from Cons.IH[OF this]
  have "encode_loop fp vs (i + 1) ?b =
     Some (take ((i + 1) * 4) ?b @ concat (map (\<lambda>v. le_bytes (f32_to_u32 fp v)) vs) @ drop ((i + 1 + length vs) * 4) ?b)" .
  moreover have "take ((i + 1) * 4) ?b = take (i * 4) buf @ le_bytes ?u"
    using len unfolding b by (simp add: le_bytes_def)
  moreover have "drop ((i + 1 + length vs) * 4) ?b = drop ((i + 1 + length vs) * 4) buf"
    by simp
  ultimately show ?case using step by simp
qed

lemma encode_vector_eq:
  "encode_vector fp vector = Some (concat (map (\<lambda>v. le_bytes (f32_to_u32 fp v)) vector))"
  by (simp add: encode_vector_def encode_loop_eq)

lemma index_append_right: "index (pre @ xs) (length pre + j) = index xs j"
  by (simp add: index_def nth_append)

lemma decode_loop_eq:
  "length pre = i * 4 \<Longrightarrow>
   decode_loop (pre @ concat (map le_bytes us)) i (length us) = Some (map u32_to_f32 us)"
proof (induction us arbitrary: pre i)
  case Nil
  then show ?case by simp
next
  case (Cons u us)
  let ?d = "pre @ concat (map le_bytes (u # us))"
  have rest: "decode_loop ((pre @ le_bytes u) @ concat (map le_bytes us)) (i + 1) (length us)
      = Some (map u32_to_f32 us)"
    by (rule Cons.IH) (simp add: Cons.prems le_bytes_def)
  have d: "?d = (pre @ le_bytes u) @ concat (map le_bytes us)" by simp
  have i0: "index ?d (i * 4 + 0) = Some (ucast u)"
    and i1: "index ?d (i * 4 + 1) = Some (ucast (drop_bit 8 u))"
    and i2: "index ?d (i * 4 + 2) = Some (ucast (drop_bit 16 u))"
    and i3: "index ?d (i * 4 + 3) = Some (ucast (drop_bit 24 u))"
    using index_append_right[of pre "concat (map le_bytes (u # us))"] Cons.prems
    by (simp_all add: index_def le_bytes_def nth_append)
  have "decode_loop ?d i (Suc (length us)) =
      map_option (\<lambda>rest. u32_to_f32 u # rest) (decode_loop ?d (i + 1) (length us))"
    unfolding decode_loop.simps i0 i1 i2 i3 by (simp add: le_bytes_join Let_def)
  then show ?case using rest unfolding d by simp
qed

lemma decode_loop_total:
  "(i + n) * 4 \<le> length d \<Longrightarrow> \<exists>v. decode_loop d i n = Some v \<and> length v = n"
proof (induction n arbitrary: i)
  case 0
  then show ?case by simp
next
  case (Suc n)
  have "(i + 1 + n) * 4 \<le> length d" using Suc.prems by simp
  from Suc.IH[OF this] obtain v where v: "decode_loop d (i + 1) n = Some v" "length v = n"
    by blast
  have "i * 4 + 3 < length d" using Suc.prems by simp
  then show ?case using v by (simp add: index_def Let_def)
qed

lemma cosine_loop_total:
  "i + n \<le> length a \<Longrightarrow> i + n \<le> length b \<Longrightarrow> \<exists>r. cosine_loop fp a b i n acc = Some r"
  by (induction n arbitrary: i acc) (auto simp: index_def split: prod.splits)

lemma GetVector_no_panic: "GetVector env vs i \<noteq> Inl PanicIndexOutOfRange"
proof (cases "vectors vs (vector_file i)")
  case None
  then show ?thesis by (simp add: GetVector_def)
next
  case (Some d)
  have "\<exists>v. decode_loop d 0 (length d div 4) = Some v \<and> length v = length d div 4"
    by (rule decode_loop_total) simp
  then obtain v where "decode_loop d 0 (length d div 4) = Some v" by blast
  with Some show ?thesis by (simp add: GetVector_def)
qed

lemma GetVector_cases:
  "GetVector env vs i = Inl ErrReadVector \<or> (\<exists>v. GetVector env vs i = Inr v)"
  using GetVector_no_panic[of env vs i]
  by (auto simp: GetVector_def split: option.splits if_splits)

lemma cosineSimilarity_total: "\<exists>s. cosineSimilarity fp a b = Some s"
proof (cases "length a = length b")
  case True
  then obtain r where "cosine_loop fp a b 0 (length a) (0, 0, 0) = Some r"
    using cosine_loop_total[of 0 "length a" a b fp "(0, 0, 0)"] by auto
  then show ?thesis using True
    by (auto simp: cosineSimilarity_def split: prod.splits)
next
  case False
  then show ?thesis by (simp add: cosineSimilarity_def)
qed

lemma cosineSimilarity_score: "cosineSimilarity fp a b = Some (score fp a b)"
  using cosineSimilarity_total[of fp a b] by (auto simp: score_def)

lemma collect_similarities_eq:
  "collect_similarities fp env vs q ids = Some (candidates fp env vs q ids)"
proof (induction ids)
  case Nil
  then show ?case by (simp add: candidates_def)
next
  case (Cons i ids)
  from GetVector_cases[of env vs i] show ?case
  proof
    assume "GetVector env vs i = Inl ErrReadVector"
    then show ?thesis using Cons by (simp add: candidates_def)
  next
    assume "\<exists>v. GetVector env vs i = Inr v"
    then obtain v where "GetVector env vs i = Inr v" ..
    then show ?thesis using Cons by (simp add: candidates_def cosineSimilarity_score)
  qed
qed

lemma SearchSimilarWithFilter_eq:
  "SearchSimilarWithFilter fp srt env vs q limit flt =
     (if iterate_fails env then Inl ErrListDocs
      else Inr (fetch_results env vs
        (limited limit (srt (\<lambda>x y. f32_gt (similarity x) (similarity y))
           (candidates fp env vs q (list_doc_ids vs))))))"
  by (simp add: SearchSimilarWithFilter_def collect_similarities_eq limited_def Let_def)

subsection \<open>Sorting\<close>









subsection \<open>The loops of the search\<close>


















subsection \<open>Adding, reading back and deleting\<close>

lemma map_of_db_set: "map_of (db_set k v kvs) k = Some v"
  by (induction kvs) auto

lemma map_of_db_set_other: "k' \<noteq> k \<Longrightarrow> map_of (db_set k v kvs) k' = map_of kvs k'"
  by (induction kvs) auto

lemma set_db_set: "set (db_set k v kvs) \<subseteq> insert (k, v) (set kvs)"
  by (induction kvs) (auto split: if_splits)

lemma db_delete_absent: "k \<notin> fst ` set kvs \<Longrightarrow> db_delete k kvs = kvs"
  by (induction kvs) (auto simp: db_delete_def)

lemma db_delete_twice: "db_delete k (db_delete k kvs) = db_delete k kvs"
  by (simp add: db_delete_def)

lemma AddDocument_ok:
  "\<not> update_fails env \<Longrightarrow> \<not> write_fails env \<Longrightarrow>
   AddDocument fp env vs doc v =
     (vs\<lparr>db := db_set (doc_key (ID doc)) doc (db vs),
         vectors := (vectors vs)(vector_file (ID doc) \<mapsto> concat (map (\<lambda>x. le_bytes (f32_to_u32 fp x)) v))\<rparr>,
      None)"
  by (simp add: AddDocument_def encode_vector_eq)

lemma length_concat_le_bytes: "length (concat (map le_bytes us)) = length us * 4"
  by (induction us) (simp_all add: le_bytes_def)

lemma decode_le_bytes:
  "decode_loop (concat (map le_bytes us)) 0 (length (concat (map le_bytes us)) div 4) = Some (map u32_to_f32 us)"
  using decode_loop_eq[of "[]" 0 us] by (simp add: length_concat_le_bytes)

lemma GetVector_stored:
  "vectors vs (vector_file i) = Some (concat (map (\<lambda>x. le_bytes (f32_to_u32 fp x)) v)) \<Longrightarrow>
   \<not> read_fails env i \<Longrightarrow>
   GetVector env vs i = Inr (map (\<lambda>x. u32_to_f32 (f32_to_u32 fp x)) v)"
  using decode_le_bytes[of "map (f32_to_u32 fp) v"]
  by (simp add: GetVector_def comp_def)

lemma GetVector_after_AddDocument:
  "\<not> update_fails env \<Longrightarrow> \<not> write_fails env \<Longrightarrow> \<not> read_fails env' (ID doc) \<Longrightarrow>
   GetVector env' (fst (AddDocument fp env vs doc v)) (ID doc) =
     Inr (map (\<lambda>x. u32_to_f32 (f32_to_u32 fp x)) v)"
  by (rule GetVector_stored) (simp_all add: AddDocument_ok)

lemma f32_to_u32_half: "f32_to_u32 fp 0x3F000000 = 0"
  by (simp add: f32_to_u32_def f32_exponent_def f32_mantissa_def)

lemma f32_to_u32_one: "f32_to_u32 fp 0x3F800000 = 1"
  by (simp add: f32_to_u32_def f32_exponent_def f32_mantissa_def)


lemma u32_to_f32_zero: "u32_to_f32 0 = 0"
  by (simp add: u32_to_f32_def)

lemma u32_to_f32_one: "u32_to_f32 1 = 0x3F800000"
  by (simp add: u32_to_f32_def Let_def)

text \<open>
  Claim C2 (exact round trip of a stored vector, the file holding the IEEE-754 bytes of
  each component). \<open>AddDocument\<close> writes the bytes of \<open>uint32(v)\<close>, the numeric
  conversion, and \<open>GetVector\<close> converts the integer back: what comes back is
  \<open>float32(uint32(v))\<close>, the component without its fraction. For the vector \<open>[0.5]\<close>
  (bit pattern \<open>0x3F000000\<close>) added under id \<open>a\<close> the file holds four zero bytes, not
  the bytes \<open>00 00 00 3F\<close> of the float, and \<open>GetVector\<close> returns \<open>[0.0]\<close>.
\<close>

theorem vector_roundtrip_loses_fraction:
  "vectors (fst (AddDocument fp env_ok vs_empty (example_doc ''a'' [''databank'']) [0x3F000000]))
      (vector_file ''a'') = Some [0, 0, 0, 0]
   \<and> le_bytes 0x3F000000 = [0, 0, 0, 0x3F]
   \<and> GetVector env_ok (fst (AddDocument fp env_ok vs_empty (example_doc ''a'' [''databank'']) [0x3F000000])) ''a''
       = Inr [0]"
proof -
  have ok: "\<not> update_fails env_ok" "\<not> write_fails env_ok" "\<not> read_fails env_ok ''a''"
    by (simp_all add: env_ok_def)
  have i: "ID (example_doc ''a'' [''databank'']) = ''a''" by (simp add: example_doc_def)
  have "vectors (fst (AddDocument fp env_ok vs_empty (example_doc ''a'' [''databank'']) [0x3F000000]))
      (vector_file ''a'') = Some [0, 0, 0, 0]"
    by (simp add: AddDocument_ok ok i f32_to_u32_half le_bytes_def)
  moreover have "le_bytes 0x3F000000 = [0, 0, 0, 0x3F]"
    by (simp add: le_bytes_def)
  moreover have "GetVector env_ok (fst (AddDocument fp env_ok vs_empty (example_doc ''a'' [''databank'']) [0x3F000000])) ''a''
       = Inr [0]"
    using GetVector_after_AddDocument[of env_ok env_ok "example_doc ''a'' [''databank'']" fp vs_empty "[0x3F000000]"] ok
    by (simp add: i f32_to_u32_half u32_to_f32_zero)
  ultimately show ?thesis by blast
qed

text \<open>
  What \<open>GetVector\<close> returns after \<open>AddDocument\<close> in general is
  \<open>GetVector_after_AddDocument\<close> above: every component goes through \<open>uint32\<close>.
\<close>




text \<open>
  Claim C4, as amended: deleting an id that the store does not hold is a success.
  \<open>txn.Delete\<close> does not fail on a missing key and a missing vector file is let
  through (\<open>!os.IsNotExist(err)\<close>). When the storage reports no fault, \<open>DeleteDocument\<close>
  of an absent id returns no error and leaves the store as it was, and the second of two
  deletes of the same id returns no error.
\<close>

theorem DeleteDocument_absent_succeeds:
  assumes "\<not> update_fails env" and "\<not> remove_fails env"
  shows "(doc_key i \<notin> fst ` set (db vs) \<and> vectors vs (vector_file i) = None
            \<longrightarrow> DeleteDocument env vs i = (vs, None))
       \<and> snd (DeleteDocument env (fst (DeleteDocument env vs i)) i) = None"
  using assms by (auto simp: DeleteDocument_def db_delete_absent Let_def fun_upd_idem)

text \<open>The theorem on a fresh store, and for a second delete of a document that was added.\<close>

theorem DeleteDocument_absent_succeeds_witness:
  "\<forall>fp. \<not> update_fails env_ok \<and> \<not> remove_fails env_ok
     \<and> doc_key ''x'' \<notin> fst ` set (db vs_empty) \<and> vectors vs_empty (vector_file ''x'') = None
     \<and> DeleteDocument env_ok vs_empty ''x'' = (vs_empty, None)
     \<and> snd (DeleteDocument env_ok
              (fst (DeleteDocument env_ok
                 (fst (AddDocument fp env_ok vs_empty (example_doc ''x'' []) [0x3F800000])) ''x'')) ''x'')
         = None"
proof
  fix fp
  have ok: "\<not> update_fails env_ok" "\<not> remove_fails env_ok" by (simp_all add: env_ok_def)
  have absent: "doc_key ''x'' \<notin> fst ` set (db vs_empty)" "vectors vs_empty (vector_file ''x'') = None"
    by (simp_all add: vs_empty_def)
  show "\<not> update_fails env_ok \<and> \<not> remove_fails env_ok
     \<and> doc_key ''x'' \<notin> fst ` set (db vs_empty) \<and> vectors vs_empty (vector_file ''x'') = None
     \<and> DeleteDocument env_ok vs_empty ''x'' = (vs_empty, None)
     \<and> snd (DeleteDocument env_ok
              (fst (DeleteDocument env_ok
                 (fst (AddDocument fp env_ok vs_empty (example_doc ''x'' []) [0x3F800000])) ''x'')) ''x'')
         = None"
    using ok absent
      DeleteDocument_absent_succeeds[OF ok, of "''x''" vs_empty]
      DeleteDocument_absent_succeeds[OF ok, of "''x''"
        "fst (AddDocument fp env_ok vs_empty (example_doc ''x'' []) [0x3F800000])"]
    by blast
qed

text \<open>
  Claim C4 as stated fails: the delete of an id that was never added, on a fresh store,
  returns no error.
\<close>

theorem DeleteDocument_absent_counterexample:
  "DeleteDocument env_ok vs_empty ''no-such-id'' = (vs_empty, None)"
  by (simp add: DeleteDocument_def env_ok_def vs_empty_def db_delete_def)

subsection \<open>Searching\<close>

text \<open>
  The search is the source's three steps on the candidates: sort, cut, fetch
  (\<open>SearchSimilarWithFilter_eq\<close>). Its last argument does not occur in its body.
\<close>

lemma search_filter_irrelevant:
  "SearchSimilarWithFilter fp srt env vs q limit flt = SearchSimilarWithFilter fp srt env vs q limit None"
  by (simp add: SearchSimilarWithFilter_def)


lemma env_ok_simps:
  "\<not> update_fails env_ok" "\<not> iterate_fails env_ok" "\<not> get_fails env_ok i"
  "\<not> read_fails env_ok i" "\<not> write_fails env_ok" "\<not> remove_fails env_ok"
  by (simp_all add: env_ok_def)

lemma le_bytes_one: "le_bytes 1 = [1, 0, 0, 0]"
  by (simp add: le_bytes_def)



lemma decode_one: "decode_loop [1, 0, 0, 0] 0 (Suc 0) = Some [0x3F800000]"
  by (simp add: index_def u32_to_f32_one)

lemma GetVector_bytes_one:
  "vectors vs (vector_file i) = Some [1, 0, 0, 0] \<Longrightarrow> \<not> read_fails env i \<Longrightarrow>
   GetVector env vs i = Inr [0x3F800000]"
  using GetVector_stored[of vs i fp "[0x3F800000]" env]
  by (simp add: f32_to_u32_one le_bytes_one u32_to_f32_one)



lemma store_one_databank_eq:
  "store_one_databank fp =
     \<lparr>db = [(''doc:d1'', example_doc ''d1'' [''databank'', ''txt''])],
      vectors = [''d1.vec'' \<mapsto> [1, 0, 0, 0]]\<rparr>"
  by (simp add: store_one_databank_def AddDocument_ok env_ok_simps vs_empty_def example_doc_def
        doc_key_def vector_file_def f32_to_u32_one le_bytes_one)











text \<open>Every store built from the fresh one keeps each document under its own key.\<close>

lemma db_keyed_empty: "db_keyed vs_empty"
  by (simp add: db_keyed_def vs_empty_def)

lemma db_keyed_AddDocument: "db_keyed vs \<Longrightarrow> db_keyed (fst (AddDocument fp env vs doc v))"
proof -
  assume k: "db_keyed vs"
  have "list_all (\<lambda>kv. fst kv = doc_key (ID (snd kv))) (db_set (doc_key (ID doc)) doc (db vs))"
    using k set_db_set[of "doc_key (ID doc)" doc "db vs"]
    by (auto simp: db_keyed_def list_all_iff)
  then show ?thesis
    by (auto simp: AddDocument_def db_keyed_def Let_def k[unfolded db_keyed_def] split: option.splits)
qed

lemma db_keyed_DeleteDocument: "db_keyed vs \<Longrightarrow> db_keyed (fst (DeleteDocument env vs i))"
  by (auto simp: DeleteDocument_def db_keyed_def db_delete_def list_all_iff Let_def)

text \<open>A NaN score is not ordered with anything, itself included.\<close>

lemma nan_scores_unordered: "f32_is_nan s \<Longrightarrow> \<not> sorted_wrt f32_ge [s, s]"
  by (simp add: f32_ge_def)

text \<open>
  Claim C1 (a search with a predicate returns only documents that satisfy it). The
  source takes the parameter \<open>filter\<close>, documents that it applies it, and never calls
  it. On a store whose only document is tagged \<open>databank\<close> and \<open>txt\<close>, the search that
  \<open>handleChatSearch\<close> runs, with the predicate "has the tag \<open>chat\<close>", returns that
  document, which does not satisfy the predicate.
\<close>

theorem search_ignores_filter:
  "SearchSimilarWithFilter fp insertion_sort env_ok (store_one_databank fp) [0x3F800000] 5
       (Some has_chat_tag)
     = Inr ([example_doc ''d1'' [''databank'', ''txt'']], [score fp [0x3F800000] [0x3F800000]])
   \<and> \<not> has_chat_tag (example_doc ''d1'' [''databank'', ''txt''])"
proof -
  have ids: "list_doc_ids (store_one_databank fp) = [''d1'']"
    by (simp add: store_one_databank_eq list_doc_ids_def iterate_prefix_def has_prefix_def)
  have v: "GetVector env_ok (store_one_databank fp) ''d1'' = Inr [0x3F800000]"
    by (rule GetVector_bytes_one; simp add: store_one_databank_eq vector_file_def env_ok_simps)
  have c: "candidates fp env_ok (store_one_databank fp) [0x3F800000] [''d1''] =
     [\<lparr>doc_id = ''d1'', similarity = score fp [0x3F800000] [0x3F800000]\<rparr>]"
    by (simp add: candidates_def v)
  have g: "GetDocument env_ok (store_one_databank fp) ''d1'' = Inr (example_doc ''d1'' [''databank'', ''txt''])"
    by (simp add: GetDocument_def env_ok_simps store_one_databank_eq doc_key_def)
  have "SearchSimilarWithFilter fp insertion_sort env_ok (store_one_databank fp) [0x3F800000] 5
       (Some has_chat_tag)
     = Inr ([example_doc ''d1'' [''databank'', ''txt'']], [score fp [0x3F800000] [0x3F800000]])"
    by (simp add: SearchSimilarWithFilter_eq env_ok_simps ids c insertion_sort_def limited_def g)
  moreover have "\<not> has_chat_tag (example_doc ''d1'' [''databank'', ''txt''])"
    by (simp add: has_chat_tag_def example_doc_def)
  ultimately show ?thesis by blast
qed








subsection \<open>The chunker\<close>

lemma Split_not_Nil: "Split sep s \<noteq> []"
  by (induction sep s rule: Split.induct) (auto split: list.splits)

lemma add_sentence_nonempty:
  "0 < chunkSize \<Longrightarrow>
   nonempty_state (add_sentence chunkSize overlap st sentence) \<longleftrightarrow> nonempty_state st \<or> sentence \<noteq> []"
  by (cases st) (auto simp: add_sentence_def nonempty_state_def Let_def split: if_splits)

lemma foldl_add_sentence_nonempty:
  "0 < chunkSize \<Longrightarrow>
   nonempty_state (foldl (add_sentence chunkSize overlap) st sentences)
     \<longleftrightarrow> nonempty_state st \<or> (\<exists>s\<in>set sentences. s \<noteq> [])"
  by (induction sentences arbitrary: st) (auto simp: add_sentence_nonempty)

lemma keep_parts_nonempty: "s \<in> set (keep_parts delimiter parts) \<Longrightarrow> s \<noteq> []"
  by (induction delimiter parts rule: keep_parts.induct) (auto split: if_splits)

lemma split_sentences_by_nonempty: "s \<in> set (split_sentences_by sentences delimiter) \<Longrightarrow> s \<noteq> []"
  by (auto simp: split_sentences_by_def dest: keep_parts_nonempty)

lemma splitIntoSentences_nonempty: "s \<in> set (splitIntoSentences text) \<Longrightarrow> s \<noteq> []"
  unfolding splitIntoSentences_def delimiters_def
  by (simp del: Split.simps) (erule split_sentences_by_nonempty)

lemma add_paragraph_nonempty:
  assumes "0 < chunkSize"
  shows "nonempty_state (add_paragraph chunkSize overlap st paragraph) \<longleftrightarrow>
     nonempty_state st \<or>
     (if int (length paragraph) > chunkSize then splitIntoSentences paragraph \<noteq> [] else paragraph \<noteq> [])"
proof (cases "int (length paragraph) > chunkSize")
  case True
  have "(\<exists>s\<in>set (splitIntoSentences paragraph). s \<noteq> []) \<longleftrightarrow> splitIntoSentences paragraph \<noteq> []"
    using splitIntoSentences_nonempty[of _ "paragraph"]
    by (cases "splitIntoSentences paragraph") auto
  then show ?thesis
    using True assms by (simp add: add_paragraph_def foldl_add_sentence_nonempty)
next
  case False
  then show ?thesis
    by (cases st) (auto simp: add_paragraph_def nonempty_state_def Let_def split: if_splits)
qed

lemma foldl_add_paragraph_nonempty:
  "0 < chunkSize \<Longrightarrow>
   nonempty_state (foldl (add_paragraph chunkSize overlap) st paragraphs) \<longleftrightarrow>
     nonempty_state st \<or>
     (\<exists>p\<in>set paragraphs.
        if int (length p) > chunkSize then splitIntoSentences p \<noteq> [] else p \<noteq> [])"
  by (induction paragraphs arbitrary: st) (auto simp: add_paragraph_nonempty)

lemma normal_size_pos: "0 < normal_size chunkSize"
  by (simp add: normal_size_def)

lemma ChunkText_Nil_iff:
  "ChunkText text chunkSize overlap = [] \<longleftrightarrow>
     (\<forall>p\<in>set (Split ''\<newline>\<newline>'' text).
        if int (length p) > normal_size chunkSize then splitIntoSentences p = [] else p = [])"
proof -
  let ?st = "foldl (add_paragraph (normal_size chunkSize) (normal_overlap chunkSize overlap)) ([], [])
               (Split ''\<newline>\<newline>'' text)"
  have "ChunkText text chunkSize overlap = [] \<longleftrightarrow> \<not> nonempty_state ?st"
    by (cases ?st) (auto simp: ChunkText_def nonempty_state_def Let_def simp del: Split.simps)
  also have "\<dots> \<longleftrightarrow> (\<forall>p\<in>set (Split ''\<newline>\<newline>'' text).
        if int (length p) > normal_size chunkSize then splitIntoSentences p = [] else p = [])"
    using foldl_add_paragraph_nonempty[OF normal_size_pos, of chunkSize _ "([], [])"]
    by (auto simp: nonempty_state_def simp del: Split.simps)
  finally show ?thesis .
qed

text \<open>
  Claim C7, as amended. The empty input gives no fragment. Any input gives at least one
  fragment exactly when one of its paragraphs (the pieces between blank lines) brings
  text: a paragraph no longer than the chunk size that is not empty, or a longer one that
  \<open>splitIntoSentences\<close> does not reduce to nothing. The chunk size is the normalised one
  (1000 when the argument is not positive).
\<close>

theorem ChunkText_fragment_count:
  "ChunkText [] chunkSize overlap = []
   \<and> (ChunkText text chunkSize overlap \<noteq> [] \<longleftrightarrow>
        (\<exists>p\<in>set (Split ''\<newline>\<newline>'' text).
           if int (length p) > normal_size chunkSize then splitIntoSentences p \<noteq> [] else p \<noteq> []))"
proof
  show "ChunkText [] chunkSize overlap = []"
    by (simp add: ChunkText_Nil_iff normal_size_def)
  show "ChunkText text chunkSize overlap \<noteq> [] \<longleftrightarrow>
        (\<exists>p\<in>set (Split ''\<newline>\<newline>'' text).
           if int (length p) > normal_size chunkSize then splitIntoSentences p \<noteq> [] else p \<noteq> [])"
    unfolding ChunkText_Nil_iff by (auto simp del: Split.simps split: if_splits)
qed

text \<open>
  The theorem at the empty input and at the text of two paragraphs \<open>Alpha.\<close> and
  \<open>Beta.\<close> with chunk size 1000.
\<close>

theorem ChunkText_fragment_count_witness:
  "ChunkText [] 1000 200 = []
   \<and> Split ''\<newline>\<newline>'' ''Alpha.\<newline>\<newline>Beta.'' = [''Alpha.'', ''Beta.'']
   \<and> ChunkText ''Alpha.\<newline>\<newline>Beta.'' 1000 0 \<noteq> []"
  using ChunkText_fragment_count[of 1000 200 "[]"]
    ChunkText_fragment_count[of 1000 0 "''Alpha.\<newline>\<newline>Beta.''"]
  by (simp add: has_prefix_def normal_size_def)

text \<open>
  Claim C7 as stated fails: the input of two newline characters is not empty, its two
  paragraphs are, and \<open>ChunkText\<close> returns no fragment.
\<close>

theorem ChunkText_nonempty_input_counterexample:
  "''\<newline>\<newline>'' \<noteq> [] \<and> ChunkText ''\<newline>\<newline>'' 1000 200 = []"
  by (simp add: ChunkText_def normal_size_def normal_overlap_def add_paragraph_def has_prefix_def)

subsection \<open>The chat archive\<close>








text \<open>
  The id \<open>_info\<close> names the index file itself: the transcript saved under it is replaced
  by the index in the same call, and reading it back fails.
\<close>

lemma SaveChat_info_id_overwritten:
  "GetChat chat_env_ok
     (fst (SaveChat chat_env_ok now1 now2 chat_store_empty character (chat\<lparr>chat_ID := ''_info''\<rparr>)))
     character ''_info'' = Inl ErrParseChat"
  by (simp add: SaveChat_def updateCharacterInfo_def GetChat_def chat_env_ok_def chat_store_empty_def
        chat_file_name_def info_file_name_def Let_def)

subsection \<open>Ingestion\<close>

lemma store_chunks_append:
  "store_chunks fp ie mk vs i (xs @ ys) ids =
     (case snd (store_chunks fp ie mk vs i xs ids) of
        Inl failure \<Rightarrow> store_chunks fp ie mk vs i xs ids
      | Inr ids1 \<Rightarrow> store_chunks fp ie mk (fst (store_chunks fp ie mk vs i xs ids)) (i + length xs) ys ids1)"
  by (induction xs arbitrary: vs i ids) (auto simp: Let_def split: option.splits sum.splits)

lemma store_chunks_ids:
  "store_chunks fp ie mk vs i xs ids = (vs1, Inr ids1) \<Longrightarrow>
   ids1 = ids @ map (new_uuid ie) [i..<i + length xs]"
proof (induction xs arbitrary: vs i ids)
  case Nil
  then show ?case by simp
next
  case (Cons x xs)
  from Cons.prems obtain v where v: "GetEmbedding ie i x = Some v"
    by (cases "GetEmbedding ie i x") (auto simp: Let_def)
  let ?added = "AddDocument fp (add_env ie i) vs (mk i x (new_uuid ie i)) v"
  from Cons.prems v have ok: "snd ?added = None"
    by (cases "snd ?added") (auto simp: Let_def)
  with Cons.prems v have "store_chunks fp ie mk (fst ?added) (i + 1) xs (ids @ [new_uuid ie i]) = (vs1, Inr ids1)"
    by (simp add: Let_def)
  from Cons.IH[OF this] have "ids1 = (ids @ [new_uuid ie i]) @ map (new_uuid ie) [i + 1..<i + 1 + length xs]" .
  moreover have "[i..<i + length (x # xs)] = i # [i + 1..<i + 1 + length xs]"
    by (subst upt_rec) simp
  ultimately show ?case by simp
qed

lemma store_chunks_fails:
  "fragment_fails fp ie mk vs i chunk \<Longrightarrow>
   \<exists>failure. \<forall>rest ids. store_chunks fp ie mk vs i (chunk # rest) ids
     = (after_failed_fragment fp ie mk vs i chunk, Inl failure)"
  by (auto simp: fragment_fails_def after_failed_fragment_def Let_def split: option.splits)

text \<open>
  Claim C5, as amended. When fragments \<open>0..k-1\<close> are stored and fragment \<open>k\<close> fails
  (its embedding fails, or \<open>AddDocument\<close> returns an error), the loop ends with that
  failure: its outcome on all fragments is its outcome on fragments \<open>0..k\<close>, so the
  fragments after \<open>k\<close> are not processed. The store keeps what fragments \<open>0..k-1\<close>
  committed (and the document of fragment \<open>k\<close> when only its vector file failed); their
  ids are the first \<open>k\<close> UUIDs. The response has status 500 and carries an error message
  only: it has no \<open>document_ids\<close>.
\<close>

theorem ingestion_stops_at_failed_fragment:
  assumes k: "k < length chunks"
    and committed: "store_chunks fp ie mk vs 0 (take k chunks) [] = (vs_k, Inr ids)"
    and fails: "fragment_fails fp ie mk vs_k k (chunks ! k)"
  shows "\<exists>failure.
           store_chunks fp ie mk vs 0 chunks []
             = (after_failed_fragment fp ie mk vs_k k (chunks ! k), Inl failure)
         \<and> store_chunks fp ie mk vs 0 (take (Suc k) chunks) []
             = (after_failed_fragment fp ie mk vs_k k (chunks ! k), Inl failure)
         \<and> ids = map (new_uuid ie) [0..<k]
         \<and> upload_response (Inl failure) (length chunks) = StatusInternalServerError failure
         \<and> document_ids_of (upload_response (Inl failure) (length chunks)) = None"
proof -
  have len: "length (take k chunks) = k" "min (length chunks) k = k" using k by simp_all
  have whole: "chunks = take k chunks @ (chunks ! k) # drop (Suc k) chunks"
    using k by (simp add: id_take_nth_drop)
  have upto: "take (Suc k) chunks = take k chunks @ [chunks ! k]"
    using k by (simp add: take_Suc_conv_app_nth)
  from store_chunks_fails[OF fails]
  obtain failure where f: "\<And>rest ids. store_chunks fp ie mk vs_k k (chunks ! k # rest) ids
      = (after_failed_fragment fp ie mk vs_k k (chunks ! k), Inl failure)" by blast
  note f1 = f[of "[]" ids]
  have a: "store_chunks fp ie mk vs 0 chunks []
      = (after_failed_fragment fp ie mk vs_k k (chunks ! k), Inl failure)"
    by (subst whole) (simp add: store_chunks_append committed len f del: store_chunks.simps)
  have b: "store_chunks fp ie mk vs 0 (take (Suc k) chunks) []
      = (after_failed_fragment fp ie mk vs_k k (chunks ! k), Inl failure)"
    unfolding upto by (simp add: store_chunks_append committed len f1 del: store_chunks.simps)
  have c: "ids = map (new_uuid ie) [0..<k]"
    using store_chunks_ids[OF committed] len k by simp
  show ?thesis
    using a b c by (intro exI[of _ failure]) (simp add: upload_response_def)
qed

lemma Split_without_separator:
  "sep \<noteq> [] \<Longrightarrow> hd sep \<notin> set s \<Longrightarrow> Split sep s = [s]"
proof (induction s)
  case Nil
  then show ?case by simp
next
  case (Cons c s)
  have "\<not> has_prefix sep (c # s)"
    using Cons.prems by (cases sep) (auto simp: has_prefix_def)
  then show ?case using Cons by simp
qed

lemma Split_at_first_separator:
  "sep \<noteq> [] \<Longrightarrow> hd sep \<notin> set s \<Longrightarrow> Split sep (s @ sep @ t) = s # Split sep t"
proof (induction s)
  case Nil
  then obtain c cs where sep: "sep = c # cs" by (cases sep) auto
  have "has_prefix sep (c # cs @ t)" by (simp add: has_prefix_def sep)
  then show ?case using sep by simp
next
  case (Cons c s)
  have "\<not> has_prefix sep (c # s @ sep @ t)"
    using Cons.prems by (cases sep) (auto simp: has_prefix_def)
  then show ?case using Cons by simp
qed

lemma paragraph_facts:
  "length paragraph_a = 600" "length paragraph_b = 600"
  "paragraph_a \<noteq> []" "paragraph_b \<noteq> []"
  "CHR ''\<newline>'' \<notin> set paragraph_a" "CHR ''\<newline>'' \<notin> set paragraph_b"
  "CHR '' '' \<notin> set paragraph_a"
  by (auto simp: paragraph_a_def paragraph_b_def)

lemma ChunkText_two_paragraphs:
  "ChunkText two_paragraphs 1000 200 = [paragraph_a, paragraph_a @ paragraph_b]"
proof -
  have "Split ''\<newline>\<newline>'' (paragraph_a @ ''\<newline>\<newline>'' @ paragraph_b)
      = paragraph_a # Split ''\<newline>\<newline>'' paragraph_b"
    by (rule Split_at_first_separator) (simp_all add: paragraph_facts)
  moreover have "Split ''\<newline>\<newline>'' paragraph_b = [paragraph_b]"
    by (rule Split_without_separator) (simp_all add: paragraph_facts)
  ultimately have p: "Split ''\<newline>\<newline>'' two_paragraphs = [paragraph_a, paragraph_b]"
    by (simp only: two_paragraphs_def)
  have w: "Split '' '' paragraph_a = [paragraph_a]"
    by (rule Split_without_separator) (simp_all add: paragraph_facts)
  have o: "overlap_tail 200 paragraph_a = paragraph_a"
    by (simp add: overlap_tail_def w)
  show ?thesis
    by (simp add: ChunkText_def p normal_size_def normal_overlap_def add_paragraph_def o
          paragraph_facts)
qed

text \<open>
  The theorem for three fragments where the embedding of the second fails.
\<close>

theorem ingestion_stops_at_failed_fragment_witness:
  "\<forall>fp. (1::nat) < length [''c0'', ''c1'', ''c2'']
     \<and> store_chunks fp fails_at_second (databank_document fails_at_second two_paragraph_request 3)
          vs_empty 0 (take 1 [''c0'', ''c1'', ''c2'']) []
        = (fst (AddDocument fp env_ok vs_empty
                 (databank_document fails_at_second two_paragraph_request 3 0 ''c0'' ''u'')
                 [0x3F800000]),
           Inr [''u''])
     \<and> fragment_fails fp fails_at_second (databank_document fails_at_second two_paragraph_request 3)
          (fst (AddDocument fp env_ok vs_empty
                 (databank_document fails_at_second two_paragraph_request 3 0 ''c0'' ''u'')
                 [0x3F800000]))
          1 ([''c0'', ''c1'', ''c2''] ! 1)
     \<and> store_chunks fp fails_at_second (databank_document fails_at_second two_paragraph_request 3)
          vs_empty 0 [''c0'', ''c1'', ''c2''] []
        = (fst (AddDocument fp env_ok vs_empty
                 (databank_document fails_at_second two_paragraph_request 3 0 ''c0'' ''u'')
                 [0x3F800000]),
           Inl ErrEmbedding)
     \<and> [''u''] = map (new_uuid fails_at_second) [0..<1]
     \<and> document_ids_of (upload_response (Inl ErrEmbedding) (length [''c0'', ''c1'', ''c2''])) = None"
proof
  fix fp
  let ?mk = "databank_document fails_at_second two_paragraph_request 3"
  let ?vs1 = "fst (AddDocument fp env_ok vs_empty (?mk 0 ''c0'' ''u'') [0x3F800000])"
  have k: "(1::nat) < length [''c0'', ''c1'', ''c2'']" by simp
  have ok: "snd (AddDocument fp env_ok vs_empty (?mk 0 ''c0'' ''u'') [0x3F800000]) = None"
    by (simp add: AddDocument_ok env_ok_simps)
  have committed: "store_chunks fp fails_at_second ?mk vs_empty 0 (take 1 [''c0'', ''c1'', ''c2'']) []
        = (?vs1, Inr [''u''])"
    using ok by (simp add: fails_at_second_def Let_def)
  have fails: "fragment_fails fp fails_at_second ?mk ?vs1 1 ([''c0'', ''c1'', ''c2''] ! 1)"
    by (simp add: fragment_fails_def fails_at_second_def)
  from ingestion_stops_at_failed_fragment[OF k committed fails]
  obtain failure where all:
    "store_chunks fp fails_at_second ?mk vs_empty 0 [''c0'', ''c1'', ''c2''] []
       = (after_failed_fragment fp fails_at_second ?mk ?vs1 1 ([''c0'', ''c1'', ''c2''] ! 1), Inl failure)
     \<and> store_chunks fp fails_at_second ?mk vs_empty 0 (take (Suc 1) [''c0'', ''c1'', ''c2'']) []
       = (after_failed_fragment fp fails_at_second ?mk ?vs1 1 ([''c0'', ''c1'', ''c2''] ! 1), Inl failure)
     \<and> [''u''] = map (new_uuid fails_at_second) [0..<1]
     \<and> upload_response (Inl failure) (length [''c0'', ''c1'', ''c2'']) = StatusInternalServerError failure
     \<and> document_ids_of (upload_response (Inl failure) (length [''c0'', ''c1'', ''c2''])) = None" ..
  note run = all[THEN conjunct1]
  note ids = all[THEN conjunct2, THEN conjunct2, THEN conjunct1]
  note none = all[THEN conjunct2, THEN conjunct2, THEN conjunct2, THEN conjunct2]
  have "failure = ErrEmbedding"
    using run ok by (simp add: fails_at_second_def Let_def)
  moreover have "after_failed_fragment fp fails_at_second ?mk ?vs1 1 ([''c0'', ''c1'', ''c2''] ! 1) = ?vs1"
    by (simp add: after_failed_fragment_def fails_at_second_def)
  ultimately show "(1::nat) < length [''c0'', ''c1'', ''c2'']
     \<and> store_chunks fp fails_at_second ?mk vs_empty 0 (take 1 [''c0'', ''c1'', ''c2'']) [] = (?vs1, Inr [''u''])
     \<and> fragment_fails fp fails_at_second ?mk ?vs1 1 ([''c0'', ''c1'', ''c2''] ! 1)
     \<and> store_chunks fp fails_at_second ?mk vs_empty 0 [''c0'', ''c1'', ''c2''] [] = (?vs1, Inl ErrEmbedding)
     \<and> [''u''] = map (new_uuid fails_at_second) [0..<1]
     \<and> document_ids_of (upload_response (Inl ErrEmbedding) (length [''c0'', ''c1'', ''c2''])) = None"
    using k committed fails run ids none by simp
qed

text \<open>
  Claim C5 as stated fails on what the error carries. \<open>handleDatabankUpload\<close> on a
  text that is cut in two fragments, with the embedding of the second fragment failing:
  the first document is committed under its id, and the response is status 500 without
  any \<open>document_ids\<close>.
\<close>

theorem upload_error_without_ids_counterexample:
  "\<forall>fp. snd (handleDatabankUpload fp fails_at_second vs_empty two_paragraph_request)
         = StatusInternalServerError ErrEmbedding
     \<and> document_ids_of (snd (handleDatabankUpload fp fails_at_second vs_empty two_paragraph_request))
         = None
     \<and> GetDocument env_ok (fst (handleDatabankUpload fp fails_at_second vs_empty two_paragraph_request)) ''u''
         = Inr (databank_document fails_at_second two_paragraph_request 2 0
                  paragraph_a ''u'')"
proof
  fix fp
  let ?mk = "databank_document fails_at_second two_paragraph_request 2"
  let ?a = "paragraph_a"
  let ?ab = "paragraph_a @ paragraph_b"
  have ne: "req_Content two_paragraph_request \<noteq> []"
    by (simp add: two_paragraph_request_def two_paragraphs_def paragraph_facts)
  have chunks: "ChunkText (req_Content two_paragraph_request) 1000 200 = [?a, ?ab]"
    by (simp add: two_paragraph_request_def ChunkText_two_paragraphs)
  have add: "AddDocument fp env_ok vs_empty (?mk 0 ?a ''u'') [0x3F800000]
      = (vs_empty\<lparr>db := db_set (doc_key ''u'') (?mk 0 ?a ''u'') (db vs_empty),
            vectors := (vectors vs_empty)(vector_file ''u'' \<mapsto> [1, 0, 0, 0])\<rparr>, None)"
    by (simp add: AddDocument_ok env_ok_simps databank_document_def f32_to_u32_one le_bytes_one)
  have l2: "length [?a, ?ab] = 2" by simp
  have run: "store_chunks fp fails_at_second
        (databank_document fails_at_second two_paragraph_request (length [?a, ?ab])) vs_empty 0 [?a, ?ab] []
      = (fst (AddDocument fp env_ok vs_empty (?mk 0 ?a ''u'') [0x3F800000]), Inl ErrEmbedding)"
    unfolding l2 using add by (simp add: fails_at_second_def Let_def)
  have h: "handleDatabankUpload fp fails_at_second vs_empty two_paragraph_request
      = (fst (AddDocument fp env_ok vs_empty (?mk 0 ?a ''u'') [0x3F800000]),
         StatusInternalServerError ErrEmbedding)"
    unfolding handleDatabankUpload_def chunks Let_def run
    using ne by (simp add: upload_response_def)
  have g: "GetDocument env_ok (fst (AddDocument fp env_ok vs_empty (?mk 0 ?a ''u'') [0x3F800000])) ''u''
      = Inr (?mk 0 ?a ''u'')"
    by (simp add: add GetDocument_def env_ok_simps map_of_db_set)
  show "snd (handleDatabankUpload fp fails_at_second vs_empty two_paragraph_request)
         = StatusInternalServerError ErrEmbedding
     \<and> document_ids_of (snd (handleDatabankUpload fp fails_at_second vs_empty two_paragraph_request))
         = None
     \<and> GetDocument env_ok (fst (handleDatabankUpload fp fails_at_second vs_empty two_paragraph_request)) ''u''
         = Inr (?mk 0 ?a ''u'')"
    by (simp add: h g)
qed

end
